theory Spec2Isabelle
  imports Complex_Main "HOL-Library.Multiset"
begin

section \<open>JavaScript numbers\<close>

text \<open>
  The viewer of \<^verbatim>\<open>public/js/simple3d.js\<close> computes with JavaScript numbers. A finite
  number is modelled as a real (rounding and overflow of IEEE doubles are not modelled);
  the three non-finite values a division by zero or an \<^verbatim>\<open>undefined\<close> operand produce
  are kept as values of their own, since no arithmetic operation of JavaScript throws.
  Zero has no sign here: the only divisor of the program is \<^verbatim>\<open>perspective + z2\<close>, a sum
  with the non-zero constant 5, whose zero is \<^verbatim>\<open>+0\<close>.
\<close>

datatype jsnum = Num real | PosInf | NegInf | NaN

fun is_finite :: "jsnum \<Rightarrow> bool" where
  "is_finite (Num r) = True"
| "is_finite _ = False"

fun js_neg :: "jsnum \<Rightarrow> jsnum" where
  "js_neg (Num a) = Num (- a)"
| "js_neg PosInf = NegInf"
| "js_neg NegInf = PosInf"
| "js_neg NaN = NaN"

fun js_add :: "jsnum \<Rightarrow> jsnum \<Rightarrow> jsnum" where
  "js_add (Num a) (Num b) = Num (a + b)"
| "js_add NaN _ = NaN"
| "js_add _ NaN = NaN"
| "js_add PosInf NegInf = NaN"
| "js_add NegInf PosInf = NaN"
| "js_add PosInf _ = PosInf"
| "js_add NegInf _ = NegInf"
| "js_add (Num a) b = b"

definition js_sub :: "jsnum \<Rightarrow> jsnum \<Rightarrow> jsnum" where
  "js_sub a b = js_add a (js_neg b)"

definition signed_inf :: "real \<Rightarrow> jsnum" where
  \<comment> \<open>the infinity a non-zero finite factor of sign \<open>a\<close> gives; zero gives NaN\<close>
  "signed_inf a = (if a = 0 then NaN else if 0 < a then PosInf else NegInf)"

fun js_mul :: "jsnum \<Rightarrow> jsnum \<Rightarrow> jsnum" where
  "js_mul (Num a) (Num b) = Num (a * b)"
| "js_mul NaN _ = NaN"
| "js_mul _ NaN = NaN"
| "js_mul (Num a) PosInf = signed_inf a"
| "js_mul (Num a) NegInf = signed_inf (- a)"
| "js_mul PosInf (Num b) = signed_inf b"
| "js_mul NegInf (Num b) = signed_inf (- b)"
| "js_mul PosInf PosInf = PosInf"
| "js_mul NegInf NegInf = PosInf"
| "js_mul PosInf NegInf = NegInf"
| "js_mul NegInf PosInf = NegInf"

fun js_div :: "jsnum \<Rightarrow> jsnum \<Rightarrow> jsnum" where
  "js_div (Num a) (Num b) = (if b = 0 then signed_inf a else Num (a / b))"
| "js_div NaN _ = NaN"
| "js_div _ NaN = NaN"
| "js_div (Num a) _ = Num 0"
| "js_div PosInf (Num b) = (if 0 \<le> b then PosInf else NegInf)"
| "js_div NegInf (Num b) = (if 0 \<le> b then NegInf else PosInf)"
| "js_div PosInf _ = NaN"
| "js_div NegInf _ = NaN"

fun js_cos :: "jsnum \<Rightarrow> jsnum" where
  "js_cos (Num a) = Num (cos a)"
| "js_cos _ = NaN"

fun js_sin :: "jsnum \<Rightarrow> jsnum" where
  "js_sin (Num a) = Num (sin a)"
| "js_sin _ = NaN"

fun js_gt0 :: "jsnum \<Rightarrow> bool" where
  \<comment> \<open>\<^verbatim>\<open>v > 0\<close> on the result of a sort comparator; NaN counts as \<^verbatim>\<open>+0\<close> there\<close>
  "js_gt0 (Num a) = (0 < a)"
| "js_gt0 PosInf = True"
| "js_gt0 _ = False"

fun js_max :: "jsnum \<Rightarrow> jsnum \<Rightarrow> jsnum" where
  \<comment> \<open>\<^verbatim>\<open>Math.max\<close> of two numbers: NaN if either is\<close>
  "js_max NaN _ = NaN"
| "js_max _ NaN = NaN"
| "js_max PosInf _ = PosInf"
| "js_max _ PosInf = PosInf"
| "js_max NegInf b = b"
| "js_max a NegInf = a"
| "js_max (Num a) (Num b) = Num (max a b)"


section \<open>Data model\<close>

text \<open>
  An atom and a bond of a molecule record, as the data service supplies them. The
  coordinates \<^verbatim>\<open>x\<close>, \<^verbatim>\<open>y\<close>, \<^verbatim>\<open>z\<close> of an atom are the fields \<open>ax\<close>, \<open>ay\<close>, \<open>az\<close>; the
  properties \<^verbatim>\<open>from\<close>, \<^verbatim>\<open>to\<close>, \<^verbatim>\<open>order\<close> of a bond are \<open>bond_from\<close>, \<open>bond_to\<close>,
  \<open>bond_order\<close>; \<^verbatim>\<open>molecule.atoms\<close> and \<^verbatim>\<open>molecule.bonds\<close> are \<open>mol_atoms\<close> and
  \<open>mol_bonds\<close>. The \<^verbatim>\<open>x\<close>, \<^verbatim>\<open>y\<close>, \<^verbatim>\<open>z\<close> of a projected position are \<open>px\<close>, \<open>py\<close>,
  \<open>pz\<close>.
\<close>

record atom =
  element :: string
  ax :: real
  ay :: real
  az :: real

record bond =
  bond_from :: int
  bond_to :: int
  bond_order :: real

record molecule =
  mol_atoms :: "atom list"
  mol_bonds :: "bond list"

text \<open>
  An atom of the scene: the spread copy of the molecule's atom that \<^verbatim>\<open>setMolecule\<close>
  builds, with the two properties it adds.
\<close>

record scene_atom = atom +
  originalIndex :: nat
  visible :: bool

text \<open>
  A call argument of JavaScript may be left out (\<^verbatim>\<open>undefined\<close>) or be \<^verbatim>\<open>null\<close>.
\<close>

datatype 'a jsarg = Undefined | Null | Val 'a

datatype js_error = TypeError

text \<open>
  A method that may throw: it returns the state it leaves behind, or throws and leaves
  the state of the moment of the throw.
\<close>

datatype 'a result = Returns 'a | Throws js_error 'a

fun state_of :: "'a result \<Rightarrow> 'a" where
  \<comment> \<open>what a call leaves behind, whether it returned or threw\<close>
  "state_of (Returns s) = s"
| "state_of (Throws e s) = s"

text \<open>
  \<^verbatim>\<open>this.rotation\<close> holds an object with the numbers \<^verbatim>\<open>x\<close> and \<^verbatim>\<open>y\<close>. The only other
  object the class ever stores there is a member of \<^verbatim>\<open>Object.prototype\<close> that the lookup
  \<^verbatim>\<open>views[view]\<close> of \<^verbatim>\<open>setView\<close> found by inheritance: it has neither an \<^verbatim>\<open>x\<close> nor a
  \<^verbatim>\<open>y\<close>, so both read as \<^verbatim>\<open>undefined\<close>, which every numeric use turns into NaN.
\<close>

datatype rotation_val = Rotation real real | ProtoMember string

fun rot_x :: "rotation_val \<Rightarrow> jsnum" where
  "rot_x (Rotation a b) = Num a"
| "rot_x (ProtoMember k) = NaN"

fun rot_y :: "rotation_val \<Rightarrow> jsnum" where
  "rot_y (Rotation a b) = Num b"
| "rot_y (ProtoMember k) = NaN"

fun add_x :: "rotation_val \<Rightarrow> real \<Rightarrow> rotation_val" where
  \<comment> \<open>\<^verbatim>\<open>this.rotation.x += d\<close>; on a prototype member the property becomes NaN\<close>
  "add_x (Rotation a b) d = Rotation (a + d) b"
| "add_x (ProtoMember k) d = ProtoMember k"

fun add_y :: "rotation_val \<Rightarrow> real \<Rightarrow> rotation_val" where
  "add_y (Rotation a b) d = Rotation a (b + d)"
| "add_y (ProtoMember k) d = ProtoMember k"

record point =
  px :: jsnum
  py :: jsnum
  pz :: jsnum

record projected_atom = scene_atom +
  pos :: point

text \<open>
  What \<^verbatim>\<open>getElementColor\<close> returns: a colour string of the table (or the default), or
  the member of \<^verbatim>\<open>Object.prototype\<close> that the lookup \<^verbatim>\<open>colors[element]\<close> found by
  inheritance, which is truthy and so is returned in place of the default.
\<close>

datatype color_val = ColorString string | ObjectMember string

text \<open>
  What \<^verbatim>\<open>render\<close> paints, in the order of the canvas calls. \<open>DrawBond\<close> is the
  stroked line of a bond: the bond, its two projected end points, the line width. An
  atom is painted in four steps, each carrying the projected atom it belongs to:
  \<open>Shadow\<close> (the disc of the given radius, two pixels right and below the position),
  \<open>Disc\<close> (the disc of the given radius, filled with the gradient from the lightened
  colour to the colour of the element), \<open>Outline\<close>, and \<open>Label\<close> (the element symbol in the
  given colour and font size). The canvas context belongs to the host: its methods are
  taken to accept whatever arguments they are given.
\<close>

datatype draw_cmd =
    ClearRect
  | Background
  | DrawBond bond point point real
  | Shadow projected_atom jsnum
  | Disc projected_atom jsnum string color_val
  | Outline projected_atom jsnum
  | Label projected_atom string jsnum

text \<open>
  The viewer object. \<open>isDragging\<close>, \<open>lastX\<close> and \<open>lastY\<close> are the variables of
  \<^verbatim>\<open>setupInteraction\<close> that its event handlers share; \<open>pending\<close> counts the \<^verbatim>\<open>spin\<close>
  callbacks handed to \<^verbatim>\<open>requestAnimationFrame\<close> that have not fired yet; \<open>surface\<close> is
  the canvas: the calls made on it since its last full clear.
\<close>

record viewer =
  width :: real
  height :: real
  atoms :: "scene_atom list"
  bonds :: "bond list"
  rotation :: rotation_val
  zoom :: real
  spinning :: bool
  isDragging :: bool
  lastX :: real
  lastY :: real
  pending :: nat
  surface :: "draw_cmd list"

record mouse_event =
  clientX :: real
  clientY :: real

record wheel_event =
  deltaY :: real


section \<open>The class \<^verbatim>\<open>Simple3DMolecule\<close>\<close>

definition new_Simple3DMolecule :: "real \<Rightarrow> real \<Rightarrow> viewer" where
  \<comment> \<open>the constructor, on a canvas of the given \<^verbatim>\<open>offsetWidth\<close> and \<^verbatim>\<open>offsetHeight\<close>\<close>
  "new_Simple3DMolecule w h =
     \<lparr>width = w, height = h, atoms = [], bonds = [], rotation = Rotation 0.5 0.5,
      zoom = 1, spinning = False, isDragging = False, lastX = 0, lastY = 0,
      pending = 0, surface = []\<rparr>"

definition project3D :: "viewer \<Rightarrow> real \<Rightarrow> real \<Rightarrow> real \<Rightarrow> point" where
  "project3D s x y z =
     (let cosX = js_cos (rot_x (rotation s));
          sinX = js_sin (rot_x (rotation s));
          cosY = js_cos (rot_y (rotation s));
          sinY = js_sin (rot_y (rotation s));
          x1 = js_sub (js_mul (Num x) cosY) (js_mul (Num z) sinY);
          z1 = js_add (js_mul (Num x) sinY) (js_mul (Num z) cosY);
          y1 = js_sub (js_mul (Num y) cosX) (js_mul z1 sinX);
          z2 = js_add (js_mul (Num y) sinX) (js_mul z1 cosX);
          scale = Num (100 * zoom s);
          perspective = Num 5;
          scaleFactor = js_div perspective (js_add perspective z2)
      in \<lparr>px = js_add (Num (width s / 2)) (js_mul (js_mul x1 scale) scaleFactor),
          py = js_sub (Num (height s / 2)) (js_mul (js_mul y1 scale) scaleFactor),
          pz = z2\<rparr>)"

text \<open>
  The projection as the specification words it, over the reals: the two rotations, the
  perspective divide with the constant 5 and the map to the surface with the base scale
  100.
\<close>

definition spec_x1 :: "real \<Rightarrow> real \<Rightarrow> real \<Rightarrow> real" where
  "spec_x1 rotationY x z = x * cos rotationY - z * sin rotationY"

definition spec_z1 :: "real \<Rightarrow> real \<Rightarrow> real \<Rightarrow> real" where
  "spec_z1 rotationY x z = x * sin rotationY + z * cos rotationY"

definition spec_y1 :: "real \<Rightarrow> real \<Rightarrow> real \<Rightarrow> real \<Rightarrow> real \<Rightarrow> real" where
  "spec_y1 rotationX rotationY x y z = y * cos rotationX - spec_z1 rotationY x z * sin rotationX"

definition spec_z2 :: "real \<Rightarrow> real \<Rightarrow> real \<Rightarrow> real \<Rightarrow> real \<Rightarrow> real" where
  "spec_z2 rotationX rotationY x y z = y * sin rotationX + spec_z1 rotationY x z * cos rotationX"

definition spec_scaleFactor :: "real \<Rightarrow> real" where
  "spec_scaleFactor z2 = 5 / (5 + z2)"

definition spec_project :: "real \<Rightarrow> real \<Rightarrow> real \<Rightarrow> real \<Rightarrow> real \<Rightarrow> real \<Rightarrow> real \<Rightarrow> real \<Rightarrow> point" where
  "spec_project surfaceWidth surfaceHeight rotationX rotationY zoom' x y z =
     (let x1 = spec_x1 rotationY x z;
          y1 = spec_y1 rotationX rotationY x y z;
          z2 = spec_z2 rotationX rotationY x y z;
          scaleFactor = spec_scaleFactor z2
      in \<lparr>px = Num (surfaceWidth / 2 + x1 * 100 * zoom' * scaleFactor),
          py = Num (surfaceHeight / 2 - y1 * 100 * zoom' * scaleFactor),
          pz = Num z2\<rparr>)"



text \<open>
  Reading a property of an object literal by a string key, as \<^verbatim>\<open>obj[key]\<close> does: the
  object's own property if it has one, else a member that every object literal inherits
  from \<^verbatim>\<open>Object.prototype\<close> (a function, or for \<^verbatim>\<open>__proto__\<close> the prototype itself),
  else \<^verbatim>\<open>undefined\<close>.
\<close>

definition object_prototype_members :: "string list" where
  "object_prototype_members =
     [''constructor'', ''hasOwnProperty'', ''isPrototypeOf'', ''propertyIsEnumerable'',
      ''toLocaleString'', ''toString'', ''valueOf'', ''__proto__'',
      ''__defineGetter__'', ''__defineSetter__'', ''__lookupGetter__'', ''__lookupSetter__'']"

datatype 'a property = Own 'a | Inherited string | Absent

definition get_property :: "(string \<rightharpoonup> 'a) \<Rightarrow> string \<Rightarrow> 'a property" where
  "get_property obj k =
     (case obj k of
        Some v \<Rightarrow> Own v
      | None \<Rightarrow> if k \<in> set object_prototype_members then Inherited k else Absent)"

definition clear :: "viewer \<Rightarrow> viewer" where
  "clear s = s\<lparr>atoms := [], bonds := [], surface := [ClearRect]\<rparr>"

definition radii :: "string \<rightharpoonup> real" where
  "radii = map_of
     [(''H'', 0.31), (''C'', 0.70), (''N'', 0.65), (''O'', 0.60),
      (''F'', 0.50), (''Cl'', 1.00), (''Br'', 1.20), (''I'', 1.40),
      (''P'', 1.00), (''S'', 1.00), (''B'', 0.90), (''Si'', 1.10)]"

definition getElementRadius :: "string \<Rightarrow> jsnum" where
  \<comment> \<open>\<^verbatim>\<open>(radii[element] || 0.70) * 20\<close>; an inherited member is truthy and not a number\<close>
  "getElementRadius e =
     (case get_property radii e of
        Own r \<Rightarrow> Num ((if r = 0 then 0.70 else r) * 20)
      | Inherited k \<Rightarrow> NaN
      | Absent \<Rightarrow> Num (0.70 * 20))"

subsection \<open>Colours\<close>

definition colors :: "string \<rightharpoonup> string" where
  "colors = map_of
     [(''H'', ''#FFFFFF''), (''C'', ''#909090''), (''N'', ''#3050F8''), (''O'', ''#FF0D0D''),
      (''F'', ''#90E050''), (''Cl'', ''#1FF01F''), (''Br'', ''#A62929''), (''I'', ''#940094''),
      (''P'', ''#FF8000''), (''S'', ''#FFFF30''), (''B'', ''#FFB5B5''), (''Si'', ''#F0C8A0'')]"

definition getElementColor :: "string \<Rightarrow> color_val" where
  \<comment> \<open>\<^verbatim>\<open>colors[element] || '#808080'\<close>\<close>
  "getElementColor e =
     (case get_property colors e of
        Own c \<Rightarrow> ColorString (if c = [] then ''#808080'' else c)
      | Inherited k \<Rightarrow> ObjectMember k
      | Absent \<Rightarrow> ColorString ''#808080'')"

definition hex_value :: "char \<rightharpoonup> nat" where
  "hex_value = map_of
     [(CHR ''0'', 0), (CHR ''1'', 1), (CHR ''2'', 2), (CHR ''3'', 3), (CHR ''4'', 4),
      (CHR ''5'', 5), (CHR ''6'', 6), (CHR ''7'', 7), (CHR ''8'', 8), (CHR ''9'', 9),
      (CHR ''a'', 10), (CHR ''b'', 11), (CHR ''c'', 12), (CHR ''d'', 13), (CHR ''e'', 14),
      (CHR ''f'', 15), (CHR ''A'', 10), (CHR ''B'', 11), (CHR ''C'', 12), (CHR ''D'', 13),
      (CHR ''E'', 14), (CHR ''F'', 15)]"

fun hex_prefix :: "string \<Rightarrow> nat list" where
  "hex_prefix [] = []"
| "hex_prefix (c # cs) = (case hex_value c of None \<Rightarrow> [] | Some d \<Rightarrow> d # hex_prefix cs)"

definition parseInt16 :: "string \<Rightarrow> nat option" where
  \<comment> \<open>\<^verbatim>\<open>parseInt(str, 16)\<close> on a string that starts with its digits: the value of the
      longest prefix of hexadecimal digits, \<open>None\<close> (NaN) if there is none\<close>
  "parseInt16 str =
     (case hex_prefix str of [] \<Rightarrow> None | ds \<Rightarrow> Some (foldl (\<lambda>n d. 16 * n + d) 0 ds))"

fun hex_digits :: "nat \<Rightarrow> string" where
  "hex_digits n =
     (if n < 16 then [''0123456789abcdef'' ! n]
      else hex_digits (n div 16) @ [''0123456789abcdef'' ! (n mod 16)])"

declare hex_digits.simps [simp del]

definition toString16 :: "int \<Rightarrow> string" where
  \<comment> \<open>\<^verbatim>\<open>n.toString(16)\<close> of an integer\<close>
  "toString16 n = (if n < 0 then CHR ''-'' # hex_digits (nat (- n)) else hex_digits (nat n))"

definition lightenColor :: "color_val \<Rightarrow> real \<Rightarrow> js_error + string" where
  \<comment> \<open>a function or object has no method \<^verbatim>\<open>replace\<close>: calling it is a TypeError. On a
      number below \<open>2 ^ 31\<close>, \<^verbatim>\<open>>> k\<close> divides by \<open>2 ^ k\<close> and \<^verbatim>\<open>& 0xFF\<close> is the
      remainder by 256; both turn NaN into 0.\<close>
  "lightenColor color percent =
     (case color of
        ObjectMember k \<Rightarrow> Inl TypeError
      | ColorString c \<Rightarrow>
          (let num = (case parseInt16 (remove1 CHR ''#'' c) of None \<Rightarrow> 0 | Some n \<Rightarrow> int n);
               amt = round (2.55 * percent);
               R = min 255 (num div 65536 + amt);
               G = min 255 (num div 256 mod 256 + amt);
               B = min 255 (num mod 256 + amt)
           in Inr (CHR ''#'' # tl (toString16 (16777216 + R * 65536 + G * 256 + B)))))"

subsection \<open>\<^verbatim>\<open>render\<close>\<close>

definition projectAtoms :: "viewer \<Rightarrow> projected_atom list" where
  "projectAtoms s =
     map (\<lambda>a. \<lparr>element = element a, ax = ax a, ay = ay a, az = az a,
               originalIndex = originalIndex a, visible = visible a,
               pos = project3D s (ax a) (ay a) (az a)\<rparr>) (atoms s)"

definition compare_z :: "projected_atom \<Rightarrow> projected_atom \<Rightarrow> jsnum" where
  \<comment> \<open>the comparator \<^verbatim>\<open>(a, b) => a.pos.z - b.pos.z\<close>\<close>
  "compare_z a b = js_sub (pz (pos a)) (pz (pos b))"

text \<open>
  \<^verbatim>\<open>Array.prototype.sort\<close> with a comparator. The language requires the sort to be
  stable (since ECMAScript 2019), and on a consistent comparator every stable sort
  returns the same array; it is modelled by the stable insertion sort.
\<close>

fun insort_cmp :: "('a \<Rightarrow> 'a \<Rightarrow> jsnum) \<Rightarrow> 'a \<Rightarrow> 'a list \<Rightarrow> 'a list" where
  "insort_cmp cmp a [] = [a]"
| "insort_cmp cmp a (b # bs) =
     (if js_gt0 (cmp a b) then b # insort_cmp cmp a bs else a # b # bs)"

definition sort_cmp :: "('a \<Rightarrow> 'a \<Rightarrow> jsnum) \<Rightarrow> 'a list \<Rightarrow> 'a list" where
  "sort_cmp cmp as = foldr (insort_cmp cmp) as []"

definition draw_bond :: "projected_atom list \<Rightarrow> bond \<Rightarrow> draw_cmd list" where
  "draw_bond projectedAtoms b =
     (case find (\<lambda>a. int (originalIndex a) = bond_from b) projectedAtoms of
        None \<Rightarrow> []
      | Some fromAtom \<Rightarrow>
         (case find (\<lambda>a. int (originalIndex a) = bond_to b) projectedAtoms of
            None \<Rightarrow> []
          | Some toAtom \<Rightarrow> [DrawBond b (pos fromAtom) (pos toAtom) (bond_order b * 2)]))"

definition draw_atom :: "viewer \<Rightarrow> projected_atom \<Rightarrow> draw_cmd list result" where
  \<comment> \<open>the body of the loop over the atoms: the shadow is painted before the colour is
      looked up and lightened, the rest after\<close>
  "draw_atom s a =
     (let radius = js_mul (getElementRadius (element a)) (Num (zoom s));
          shadow = Shadow a radius;
          color = getElementColor (element a)
      in case lightenColor color 40 of
           Inl e \<Rightarrow> Throws e [shadow]
         | Inr light \<Rightarrow>
             Returns [shadow, Disc a radius light color, Outline a radius,
                      Label a (if element a = ''H'' then ''#000000'' else ''#FFFFFF'')
                        (js_max (Num 12) radius)])"

fun draw_atoms :: "viewer \<Rightarrow> projected_atom list \<Rightarrow> draw_cmd list result" where
  \<comment> \<open>\<^verbatim>\<open>projectedAtoms.forEach\<close>: an exception ends the loop\<close>
  "draw_atoms s [] = Returns []"
| "draw_atoms s (a # as) =
     (case draw_atom s a of
        Throws e cs \<Rightarrow> Throws e cs
      | Returns cs \<Rightarrow> map_result (\<lambda>ds. cs @ ds) (draw_atoms s as))"

definition frame :: "viewer \<Rightarrow> draw_cmd list result" where
  "frame s =
     (let projectedAtoms = sort_cmp compare_z (projectAtoms s)
      in map_result
           (\<lambda>cs. [ClearRect, Background]
                  @ concat (map (draw_bond projectedAtoms) (bonds s)) @ cs)
           (draw_atoms s projectedAtoms))"

definition render :: "viewer \<Rightarrow> viewer result" where
  \<comment> \<open>the canvas holds what was painted, up to the exception if there is one\<close>
  "render s = map_result (\<lambda>cs. s\<lparr>surface := cs\<rparr>) (frame s)"

subsection \<open>\<^verbatim>\<open>setMolecule\<close>\<close>

definition tag_atoms :: "(string \<rightharpoonup> bool) \<Rightarrow> atom list \<Rightarrow> scene_atom list" where
  \<comment> \<open>the \<^verbatim>\<open>.map((atom, index) => ...)\<close> of \<^verbatim>\<open>setMolecule\<close>\<close>
  "tag_atoms elementVisibility as =
     map (\<lambda>(index, a). \<lparr>element = element a, ax = ax a, ay = ay a, az = az a,
                        originalIndex = index,
                        visible = (get_property elementVisibility (element a) \<noteq> Own False)\<rparr>)
         (enumerate 0 as)"

definition has :: "nat list \<Rightarrow> int \<Rightarrow> bool" where
  \<comment> \<open>\<^verbatim>\<open>visibleIndices.has(i)\<close> on the set built from the list of indices\<close>
  "has visibleIndices i = (i \<in> set (map int visibleIndices))"

definition setMolecule :: "molecule jsarg \<Rightarrow> (string \<rightharpoonup> bool) jsarg \<Rightarrow> viewer \<Rightarrow> viewer result" where
  "setMolecule molecule elementVisibility s =
     (let s1 = clear s
      in case molecule of
           Val m \<Rightarrow>
             (case (case elementVisibility of Undefined \<Rightarrow> Val Map.empty | v \<Rightarrow> v) of
                Val vis \<Rightarrow>
                  (let s2 = s1\<lparr>atoms := filter visible (tag_atoms vis (mol_atoms m))\<rparr>;
                       visibleIndices = map originalIndex (atoms s2);
                       s3 = s2\<lparr>bonds := filter (\<lambda>b. has visibleIndices (bond_from b)
                                                     \<and> has visibleIndices (bond_to b))
                                               (mol_bonds m)\<rparr>
                   in render s3)
              | _ \<Rightarrow>
                  \<comment> \<open>a \<^verbatim>\<open>null\<close> mask is first read in the callback of the first atom\<close>
                  (if mol_atoms m = [] then render s1 else Throws TypeError s1))
         | _ \<Rightarrow> Throws TypeError s1)"

subsection \<open>Pointer and wheel handlers\<close>

definition mousedown :: "mouse_event \<Rightarrow> viewer \<Rightarrow> viewer" where
  "mousedown e s = s\<lparr>isDragging := True, lastX := clientX e, lastY := clientY e\<rparr>"

definition mousemove :: "mouse_event \<Rightarrow> viewer \<Rightarrow> viewer result" where
  "mousemove e s =
     (if isDragging s then
        (let dx = clientX e - lastX s;
             dy = clientY e - lastY s
         in render (s\<lparr>rotation := add_x (add_y (rotation s) (dx * 0.01)) (dy * 0.01),
                      lastX := clientX e, lastY := clientY e\<rparr>))
      else Returns s)"

definition mouseup :: "viewer \<Rightarrow> viewer" where
  "mouseup s = s\<lparr>isDragging := False\<rparr>"

definition wheel :: "wheel_event \<Rightarrow> viewer \<Rightarrow> viewer result" where
  "wheel e s =
     (let delta = (if deltaY e > 0 then 0.9 else 1.1);
          zoom1 = zoom s * delta
      in render (s\<lparr>zoom := max 0.1 (min zoom1 5)\<rparr>))"

subsection \<open>View commands\<close>

definition views :: "string \<rightharpoonup> rotation_val" where
  "views = map_of
     [(''front'', Rotation 0 0),
      (''top'', Rotation (pi / 2) 0),
      (''side'', Rotation 0 (pi / 2)),
      (''iso'', Rotation 0.5 0.5)]"

definition setView :: "string \<Rightarrow> viewer \<Rightarrow> viewer result" where
  \<comment> \<open>\<^verbatim>\<open>if (views[view])\<close>: every object and function is truthy, \<^verbatim>\<open>undefined\<close> is not\<close>
  "setView view s =
     (case get_property views view of
        Own r \<Rightarrow> render (s\<lparr>rotation := r\<rparr>)
      | Inherited k \<Rightarrow> render (s\<lparr>rotation := ProtoMember k\<rparr>)
      | Absent \<Rightarrow> Returns s)"

definition resetView :: "viewer \<Rightarrow> viewer result" where
  "resetView s = render (s\<lparr>rotation := Rotation 0.5 0.5, zoom := 1\<rparr>)"

definition zoomIn :: "viewer \<Rightarrow> viewer result" where
  "zoomIn s = render (s\<lparr>zoom := min (zoom s * 1.2) 5\<rparr>)"

definition zoomOut :: "viewer \<Rightarrow> viewer result" where
  "zoomOut s = render (s\<lparr>zoom := max (zoom s * 0.8) 0.1\<rparr>)"

subsection \<open>Spinning\<close>

definition requestAnimationFrame :: "viewer \<Rightarrow> viewer" where
  \<comment> \<open>hands the \<^verbatim>\<open>spin\<close> callback to the host, to be fired at a later frame\<close>
  "requestAnimationFrame s = s\<lparr>pending := Suc (pending s)\<rparr>"

definition spin :: "viewer \<Rightarrow> viewer result" where
  \<comment> \<open>the closure \<^verbatim>\<open>spin\<close> of \<^verbatim>\<open>startSpin\<close>: one tick; an exception of \<^verbatim>\<open>render\<close> leaves
      it before the callback is scheduled again\<close>
  "spin s =
     (if spinning s then
        (case render (s\<lparr>rotation := add_y (rotation s) 0.02\<rparr>) of
           Returns s' \<Rightarrow> Returns (requestAnimationFrame s')
         | Throws e s' \<Rightarrow> Throws e s')
      else Returns s)"

definition startSpin :: "viewer \<Rightarrow> viewer result" where
  "startSpin s = spin (s\<lparr>spinning := True\<rparr>)"

definition stopSpin :: "viewer \<Rightarrow> viewer" where
  "stopSpin s = s\<lparr>spinning := False\<rparr>"

definition toggleSpin :: "viewer \<Rightarrow> viewer result" where
  "toggleSpin s = (if spinning s then Returns (stopSpin s) else startSpin s)"

definition animationFrame :: "viewer \<Rightarrow> viewer result" where
  \<comment> \<open>the host fires one of the scheduled \<^verbatim>\<open>spin\<close> callbacks, if there is one\<close>
  "animationFrame s =
     (if pending s = 0 then Returns s else spin (s\<lparr>pending := pending s - 1\<rparr>))"

subsection \<open>Sequences of calls\<close>

text \<open>
  An exception of a handler or of a method goes to the host or to the caller, and the
  viewer stays as the throw left it: the next call starts from that state.
\<close>

datatype zoom_op = Wheel wheel_event | ZoomIn | ZoomOut

fun zoom_step :: "viewer \<Rightarrow> zoom_op \<Rightarrow> viewer" where
  "zoom_step s (Wheel e) = state_of (wheel e s)"
| "zoom_step s ZoomIn = state_of (zoomIn s)"
| "zoom_step s ZoomOut = state_of (zoomOut s)"

definition zoom_ok :: "viewer \<Rightarrow> bool" where
  "zoom_ok s = (0.1 \<le> zoom s \<and> zoom s \<le> 5)"

text \<open>Everything the page and the host can do to a viewer.\<close>

datatype event =
    CallClear
  | CallSetMolecule "molecule jsarg" "(string \<rightharpoonup> bool) jsarg"
  | OnMouseDown mouse_event
  | OnMouseMove mouse_event
  | OnMouseUp
  | OnWheel wheel_event
  | CallSetView string
  | CallResetView
  | CallZoomIn
  | CallZoomOut
  | CallStartSpin
  | CallStopSpin
  | CallToggleSpin
  | OnAnimationFrame

fun exec :: "viewer \<Rightarrow> event \<Rightarrow> viewer" where
  "exec s CallClear = clear s"
| "exec s (CallSetMolecule molecule elementVisibility) =
     state_of (setMolecule molecule elementVisibility s)"
| "exec s (OnMouseDown e) = mousedown e s"
| "exec s (OnMouseMove e) = state_of (mousemove e s)"
| "exec s OnMouseUp = mouseup s"
| "exec s (OnWheel e) = state_of (wheel e s)"
| "exec s (CallSetView view) = state_of (setView view s)"
| "exec s CallResetView = state_of (resetView s)"
| "exec s CallZoomIn = state_of (zoomIn s)"
| "exec s CallZoomOut = state_of (zoomOut s)"
| "exec s CallStartSpin = state_of (startSpin s)"
| "exec s CallStopSpin = stopSpin s"
| "exec s CallToggleSpin = state_of (toggleSpin s)"
| "exec s OnAnimationFrame = state_of (animationFrame s)"

subsection \<open>Properties of a scene and of a frame\<close>

definition scene_ok :: "viewer \<Rightarrow> bool" where
  \<comment> \<open>every bond of the scene joins two atoms of the scene\<close>
  "scene_ok s =
     list_all (\<lambda>b. has (map originalIndex (atoms s)) (bond_from b)
                  \<and> has (map originalIndex (atoms s)) (bond_to b)) (bonds s)"

definition js_less :: "jsnum \<Rightarrow> jsnum \<Rightarrow> bool" where
  \<comment> \<open>\<^verbatim>\<open>a < b\<close> on numbers; false when either is NaN\<close>
  "js_less a b = js_gt0 (js_sub b a)"

definition bond_line :: "projected_atom list \<Rightarrow> draw_cmd \<Rightarrow> bond \<Rightarrow> bool" where
  \<comment> \<open>\<open>c\<close> is the line of bond \<open>b\<close> between the projected positions of its two atoms\<close>
  "bond_line ps c b =
     (\<exists>f\<in>set ps. \<exists>t\<in>set ps.
        int (originalIndex f) = bond_from b \<and> int (originalIndex t) = bond_to b
        \<and> c = DrawBond b (pos f) (pos t) (bond_order b * 2))"

definition atom_radius :: "viewer \<Rightarrow> projected_atom \<Rightarrow> jsnum" where
  \<comment> \<open>the radius an atom is painted with: the element's radius times the zoom\<close>
  "atom_radius s p = js_mul (getElementRadius (element p)) (Num (zoom s))"

definition atom_paint :: "viewer \<Rightarrow> projected_atom \<Rightarrow> draw_cmd list \<Rightarrow> bool" where
  \<comment> \<open>\<open>cs\<close> is the complete painting of atom \<open>p\<close>: shadow, disc, outline and label\<close>
  "atom_paint s p cs =
     (case lightenColor (getElementColor (element p)) 40 of
        Inl e \<Rightarrow> False
      | Inr light \<Rightarrow>
          cs = [Shadow p (atom_radius s p),
                Disc p (atom_radius s p) light (getElementColor (element p)),
                Outline p (atom_radius s p),
                Label p (if element p = ''H'' then ''#000000'' else ''#FFFFFF'')
                  (js_max (Num 12) (atom_radius s p))])"

fun painted :: "draw_cmd list \<Rightarrow> nat list" where
  \<comment> \<open>the \<^verbatim>\<open>originalIndex\<close> of the atoms whose disc was painted, in the order of painting\<close>
  "painted [] = []"
| "painted (Disc p r l c # cs) = originalIndex p # painted cs"
| "painted (_ # cs) = painted cs"

subsection \<open>Example data\<close>

definition water :: molecule where
  "water =
     \<lparr>mol_atoms = [\<lparr>element = ''O'', ax = 0, ay = 0, az = 0\<rparr>,
                   \<lparr>element = ''H'', ax = 0.96, ay = 0, az = 0\<rparr>,
                   \<lparr>element = ''H'', ax = - 0.24, ay = 0.93, az = 0\<rparr>],
      mol_bonds = [\<lparr>bond_from = 0, bond_to = 1, bond_order = 1\<rparr>,
                   \<lparr>bond_from = 0, bond_to = 2, bond_order = 1\<rparr>]\<rparr>"

definition layered :: molecule where
  \<comment> \<open>three atoms at two depths of the front view, the first and the last at the same\<close>
  "layered =
     \<lparr>mol_atoms = [\<lparr>element = ''C'', ax = 0, ay = 0, az = 1\<rparr>,
                   \<lparr>element = ''O'', ax = 1.2, ay = 0, az = - 1\<rparr>,
                   \<lparr>element = ''H'', ax = - 0.5, ay = 0.9, az = 1\<rparr>],
      mol_bonds = [\<lparr>bond_from = 0, bond_to = 1, bond_order = 2\<rparr>,
                   \<lparr>bond_from = 0, bond_to = 2, bond_order = 1\<rparr>]\<rparr>"

definition oddly_named :: molecule where
  \<comment> \<open>one atom whose element symbol is the name of a member of \<^verbatim>\<open>Object.prototype\<close>,
      and a bond to an atom that does not exist\<close>
  "oddly_named =
     \<lparr>mol_atoms = [\<lparr>element = ''constructor'', ax = 0, ay = 0, az = 0\<rparr>],
      mol_bonds = [\<lparr>bond_from = 0, bond_to = 7, bond_order = 1\<rparr>]\<rparr>"

definition front_viewer :: viewer where
  \<comment> \<open>a fresh viewer on a 300 by 150 canvas, turned to the front view\<close>
  "front_viewer = state_of (setView ''front'' (new_Simple3DMolecule 300 150))"

definition layered_viewer :: viewer where
  "layered_viewer = state_of (setMolecule (Val layered) Undefined front_viewer)"

definition stuck_spinner :: viewer where
  \<comment> \<open>a viewer set spinning, then given the molecule with the oddly named atom\<close>
  "stuck_spinner =
     state_of (setMolecule (Val oddly_named) Undefined
                 (state_of (startSpin (new_Simple3DMolecule 300 150))))"


section \<open>Basic facts\<close>

lemma state_of_map_result: "state_of (map_result f r) = f (state_of r)"
  by (cases r) simp_all

lemma returns_map_result:
  "(map_result f r = Returns (state_of (map_result f r))) = (r = Returns (state_of r))"
  by (cases r) simp_all

lemma throws_map_result:
  "(map_result f r = Throws e (state_of (map_result f r))) = (r = Throws e (state_of r))"
  by (cases r) simp_all

lemma state_of_render: "state_of (render s) = s\<lparr>surface := state_of (frame s)\<rparr>"
  by (simp add: render_def state_of_map_result)

lemma visible_iff: "(get_property vis e \<noteq> Own False) = (vis e \<noteq> Some False)"
  by (auto simp: get_property_def split: option.splits)

lemma has_iff: "has (map originalIndex as) i = (\<exists>a\<in>set as. int (originalIndex a) = i)"
  by (auto simp: has_def)

lemma has_cong: "set xs = set ys \<Longrightarrow> has xs i = has ys i"
  by (simp add: has_def)

lemma frame_empty: "atoms s = [] \<Longrightarrow> frame s = Returns ([ClearRect, Background]
    @ concat (map (draw_bond []) (bonds s)))"
  by (simp add: frame_def projectAtoms_def sort_cmp_def)

lemma front_viewer_eq:
  "front_viewer = (new_Simple3DMolecule 300 150)
     \<lparr>rotation := Rotation 0 0, surface := [ClearRect, Background]\<rparr>"
  by (simp add: front_viewer_def setView_def get_property_def views_def render_def
      frame_empty new_Simple3DMolecule_def)

lemma rotation_front_viewer: "rotation front_viewer = Rotation 0 0"
  by (simp add: front_viewer_eq)

lemma zoom_front_viewer: "zoom front_viewer = 1"
  by (simp add: front_viewer_eq new_Simple3DMolecule_def)

lemma size_front_viewer: "width front_viewer = 300" "height front_viewer = 150"
  by (simp_all add: front_viewer_eq new_Simple3DMolecule_def)


section \<open>Colours\<close>

lemma lightenColor_string: "\<exists>light. lightenColor (ColorString c) percent = Inr light"
  by (simp add: lightenColor_def Let_def)

lemma lightenColor_member: "lightenColor (ObjectMember k) percent = Inl TypeError"
  by (simp add: lightenColor_def)

lemma lightenColor_oxygen: "lightenColor (getElementColor ''O'') 40 = Inr ''#ff7373''"
  by (simp add: getElementColor_def get_property_def colors_def lightenColor_def
      parseInt16_def hex_value_def toString16_def hex_digits.simps)

lemma lightenColor_default: "lightenColor (getElementColor ''Xx'') 40 = Inr ''#e6e6e6''"
  by (simp add: getElementColor_def get_property_def colors_def object_prototype_members_def
      lightenColor_def parseInt16_def hex_value_def toString16_def hex_digits.simps)

lemma members_have_no_color: "list_all (\<lambda>k. colors k = None) object_prototype_members"
  by (simp add: object_prototype_members_def colors_def)

lemma colors_not_inherited: "k \<in> set object_prototype_members \<Longrightarrow> colors k = None"
  using members_have_no_color by (simp add: list_all_iff)

lemma getElementColor_member:
  "(\<exists>k. getElementColor e = ObjectMember k) = (e \<in> set object_prototype_members)"
proof (cases "e \<in> set object_prototype_members")
  case True
  then show ?thesis by (simp add: getElementColor_def get_property_def colors_not_inherited)
next
  case False
  then show ?thesis
    by (simp add: getElementColor_def get_property_def split: option.splits)
qed


section \<open>Loading a molecule\<close>

text \<open>
  Claim C1, as amended. With an absent or \<^verbatim>\<open>null\<close> molecule \<^verbatim>\<open>setMolecule\<close> does throw:
  the scene is cleared first, then reading \<^verbatim>\<open>molecule.atoms\<close> raises a TypeError. The
  scene it leaves behind is empty: zero atoms and zero bonds.
\<close>

theorem setMolecule_absent_throws:
  "setMolecule Undefined vis s = Throws TypeError (clear s)
   \<and> setMolecule Null vis s = Throws TypeError (clear s)
   \<and> atoms (clear s) = [] \<and> bonds (clear s) = []"
  by (simp add: setMolecule_def clear_def)

text \<open>
  The claim as it was stated (no exception) fails on a fresh viewer: the call with
  \<^verbatim>\<open>null\<close> throws.
\<close>

theorem setMolecule_null_counterexample:
  "setMolecule Null Undefined (new_Simple3DMolecule 300 150)
   = Throws TypeError (clear (new_Simple3DMolecule 300 150))"
  by (simp add: setMolecule_def)

lemma setMolecule_default_mask:
  "setMolecule molecule Undefined s = setMolecule molecule (Val Map.empty) s"
  by (cases molecule) (simp_all add: setMolecule_def)

lemma tag_atoms_filter:
  "map (\<lambda>a. (originalIndex a, atom.truncate a)) (filter visible (tag_atoms vis as))
   = filter (\<lambda>(i, a). vis (element a) \<noteq> Some False) (enumerate 0 as)"
  unfolding tag_atoms_def
  by (induction as rule: rev_induct)
     (auto simp: enumerate_append_eq visible_iff atom.truncate_def)


lemma tag_atoms_element: "a \<in> set (tag_atoms vis as) \<Longrightarrow> element a \<in> element ` set as"
  by (auto simp: tag_atoms_def in_set_enumerate_eq)


lemma setMolecule_state:
  "state_of (setMolecule (Val m) (Val vis) s) =
     (let as = filter visible (tag_atoms vis (mol_atoms m));
          s3 = (clear s)\<lparr>atoms := as,
                         bonds := filter (\<lambda>b. has (map originalIndex as) (bond_from b)
                                              \<and> has (map originalIndex as) (bond_to b))
                                         (mol_bonds m)\<rparr>
      in s3\<lparr>surface := state_of (frame s3)\<rparr>)"
  by (simp add: setMolecule_def Let_def state_of_render)

text \<open>
  Claim C3. For every molecule and visibility mask, the scene that \<^verbatim>\<open>setMolecule\<close>
  leaves in the viewer (also when the \<^verbatim>\<open>render\<close> at its end throws) has exactly the atoms
  of the molecule whose element the mask does not map to \<^verbatim>\<open>false\<close>, each once, in
  order and tagged with its array position as \<^verbatim>\<open>originalIndex\<close>, and exactly the bonds
  of the molecule both of whose end points are the \<^verbatim>\<open>originalIndex\<close> of an atom of that
  scene.
\<close>

theorem setMolecule_scene:
  "map (\<lambda>a. (originalIndex a, atom.truncate a))
       (atoms (state_of (setMolecule (Val m) (Val vis) s)))
     = filter (\<lambda>(i, a). vis (element a) \<noteq> Some False) (enumerate 0 (mol_atoms m))
   \<and> bonds (state_of (setMolecule (Val m) (Val vis) s))
     = filter (\<lambda>b. (\<exists>a\<in>set (atoms (state_of (setMolecule (Val m) (Val vis) s))).
                       int (originalIndex a) = bond_from b)
                 \<and> (\<exists>a\<in>set (atoms (state_of (setMolecule (Val m) (Val vis) s))).
                       int (originalIndex a) = bond_to b))
              (mol_bonds m)"
  by (simp add: setMolecule_state Let_def tag_atoms_filter has_iff)

theorem setMolecule_scene_witness:
  "map (\<lambda>a. (originalIndex a, atom.truncate a))
       (atoms (state_of (setMolecule (Val water) (Val [''H'' \<mapsto> False]) front_viewer)))
     = [(0, \<lparr>element = ''O'', ax = 0, ay = 0, az = 0\<rparr>)]
   \<and> bonds (state_of (setMolecule (Val water) (Val [''H'' \<mapsto> False]) front_viewer)) = []"
proof -
  let ?s = "state_of (setMolecule (Val water) (Val [''H'' \<mapsto> False]) front_viewer)"
  have a: "map (\<lambda>a. (originalIndex a, atom.truncate a)) (atoms ?s)
           = filter (\<lambda>(i, a). [''H'' \<mapsto> False] (element a) \<noteq> Some False)
               (enumerate 0 (mol_atoms water))"
    and b: "bonds ?s = filter (\<lambda>b. (\<exists>a\<in>set (atoms ?s). int (originalIndex a) = bond_from b)
                                  \<and> (\<exists>a\<in>set (atoms ?s). int (originalIndex a) = bond_to b))
                              (mol_bonds water)"
    using setMolecule_scene [of water "[''H'' \<mapsto> False]" front_viewer] by blast+
  from a have a': "map (\<lambda>a. (originalIndex a, atom.truncate a)) (atoms ?s)
                   = [(0, \<lparr>element = ''O'', ax = 0, ay = 0, az = 0\<rparr>)]"
    by (simp add: water_def)
  then have m: "map originalIndex (atoms ?s) = [0]"
    by (auto simp: map_eq_Cons_conv)
  have "set (map originalIndex (atoms ?s)) = {0}"
    by (simp only: m) simp
  then have ix: "originalIndex a = 0" if "a \<in> set (atoms ?s)" for a
    using that by auto
  have "\<not> (\<exists>a\<in>set (atoms ?s). int (originalIndex a) = 1)"
    and "\<not> (\<exists>a\<in>set (atoms ?s). int (originalIndex a) = 2)"
    using ix by auto
  with b have b': "bonds ?s = []" by (simp add: water_def)
  show ?thesis
    by (simp only: a' b' simp_thms)
qed


lemma scene_ok_new: "scene_ok (new_Simple3DMolecule w h)"
  by (simp add: scene_ok_def new_Simple3DMolecule_def)

lemma scene_ok_clear: "scene_ok (clear s)"
  by (simp add: scene_ok_def clear_def)

lemma scene_ok_setMolecule: "scene_ok (state_of (setMolecule molecule elementVisibility s))"
proof (cases molecule)
  case (Val m)
  show ?thesis
  proof (cases elementVisibility)
    case Null
    with Val show ?thesis
      by (simp add: setMolecule_def scene_ok_def clear_def state_of_render Let_def)
  next
    case Undefined
    with Val show ?thesis
      by (simp add: setMolecule_default_mask setMolecule_state scene_ok_def Let_def list_all_iff)
  next
    case (Val vis)
    with \<open>molecule = Val m\<close> show ?thesis
      by (simp add: setMolecule_state scene_ok_def Let_def list_all_iff)
  qed
qed (simp_all add: setMolecule_def scene_ok_def clear_def)


section \<open>When \<^verbatim>\<open>render\<close> throws\<close>

lemma draw_atom_returns:
  assumes "element p \<notin> set object_prototype_members"
  shows "\<exists>cs. draw_atom s p = Returns cs \<and> atom_paint s p cs"
proof -
  from assms obtain c where c: "getElementColor (element p) = ColorString c"
    using getElementColor_member [of "element p"] by (cases "getElementColor (element p)") auto
  obtain light where l: "lightenColor (ColorString c) 40 = Inr light"
    using lightenColor_string by blast
  show ?thesis
    by (simp add: draw_atom_def atom_paint_def atom_radius_def Let_def c l)
qed

lemma draw_atom_throws:
  assumes "element p \<in> set object_prototype_members"
  shows "draw_atom s p = Throws TypeError [Shadow p (atom_radius s p)]"
proof -
  from assms obtain k where "getElementColor (element p) = ObjectMember k"
    using getElementColor_member [of "element p"] by blast
  then show ?thesis
    by (simp add: draw_atom_def atom_radius_def Let_def lightenColor_member)
qed

lemma draw_atoms_returns:
  "\<forall>p\<in>set ps. element p \<notin> set object_prototype_members \<Longrightarrow>
   draw_atoms s ps = Returns (state_of (draw_atoms s ps))"
proof (induction ps)
  case Nil
  then show ?case by simp
next
  case (Cons p ps)
  then obtain cs where "draw_atom s p = Returns cs"
    using draw_atom_returns [of p s] by auto
  moreover have "draw_atoms s ps = Returns (state_of (draw_atoms s ps))"
    using Cons by simp
  ultimately show ?case
    by (simp add: returns_map_result)
qed

lemma draw_atoms_throws:
  "\<exists>p\<in>set ps. element p \<in> set object_prototype_members \<Longrightarrow>
   draw_atoms s ps = Throws TypeError (state_of (draw_atoms s ps))"
proof (induction ps)
  case Nil
  then show ?case by simp
next
  case (Cons p ps)
  show ?case
  proof (cases "element p \<in> set object_prototype_members")
    case True
    then show ?thesis by (simp add: draw_atom_throws)
  next
    case False
    then obtain cs where "draw_atom s p = Returns cs"
      using draw_atom_returns [of p s] by auto
    moreover have "draw_atoms s ps = Throws TypeError (state_of (draw_atoms s ps))"
      using Cons False by simp
    ultimately show ?thesis
      by (simp add: throws_map_result)
  qed
qed

lemma insort_cmp_set: "set (insort_cmp cmp a as) = insert a (set as)"
  by (induction as) auto

lemma sort_cmp_set: "set (sort_cmp cmp as) = set as"
  by (induction as) (simp_all add: sort_cmp_def insort_cmp_set)

lemma projected_element:
  "p \<in> set (projectAtoms s) \<Longrightarrow> \<exists>a\<in>set (atoms s). element a = element p"
  by (auto simp: projectAtoms_def)

lemma scene_element:
  "a \<in> set (atoms s) \<Longrightarrow> \<exists>p\<in>set (projectAtoms s). element p = element a"
  by (force simp: projectAtoms_def)

lemma render_returns:
  assumes "\<forall>a\<in>set (atoms s). element a \<notin> set object_prototype_members"
  shows "render s = Returns (state_of (render s))"
proof -
  have "\<forall>p\<in>set (sort_cmp compare_z (projectAtoms s)). element p \<notin> set object_prototype_members"
  proof
    fix p assume "p \<in> set (sort_cmp compare_z (projectAtoms s))"
    then have "p \<in> set (projectAtoms s)" by (simp add: sort_cmp_set)
    then obtain a where a: "a \<in> set (atoms s)" and e: "element a = element p"
      using projected_element by blast
    from assms a have "element a \<notin> set object_prototype_members" by (rule bspec)
    then show "element p \<notin> set object_prototype_members" using e by simp
  qed
  then have "draw_atoms s (sort_cmp compare_z (projectAtoms s))
             = Returns (state_of (draw_atoms s (sort_cmp compare_z (projectAtoms s))))"
    by (rule draw_atoms_returns)
  then show ?thesis
    by (simp add: render_def frame_def Let_def returns_map_result)
qed

lemma render_throws:
  assumes "\<exists>a\<in>set (atoms s). element a \<in> set object_prototype_members"
  shows "render s = Throws TypeError (state_of (render s))"
proof -
  have "\<exists>p\<in>set (sort_cmp compare_z (projectAtoms s)). element p \<in> set object_prototype_members"
  proof -
    from assms obtain a where a: "a \<in> set (atoms s)" "element a \<in> set object_prototype_members"
      by blast
    then obtain p where p: "p \<in> set (projectAtoms s)" and e: "element p = element a"
      using scene_element by blast
    from a(2) have "element p \<in> set object_prototype_members" using e by simp
    with p show ?thesis by (intro bexI [of _ p]) (simp_all add: sort_cmp_set)
  qed
  then have "draw_atoms s (sort_cmp compare_z (projectAtoms s))
             = Throws TypeError (state_of (draw_atoms s (sort_cmp compare_z (projectAtoms s))))"
    by (rule draw_atoms_throws)
  then show ?thesis
    by (simp add: render_def frame_def Let_def throws_map_result)
qed

lemma tag_atoms_elements:
  "map element (filter visible (tag_atoms vis as))
   = filter (\<lambda>e. vis e \<noteq> Some False) (map element as)"
  unfolding tag_atoms_def
  by (induction as rule: rev_induct) (auto simp: enumerate_append_eq visible_iff)

lemma setMolecule_render:
  "setMolecule (Val m) (Val vis) s =
     render ((clear s)\<lparr>atoms := filter visible (tag_atoms vis (mol_atoms m)),
               bonds := filter (\<lambda>b. has (map originalIndex
                                            (filter visible (tag_atoms vis (mol_atoms m))))
                                          (bond_from b)
                                    \<and> has (map originalIndex
                                            (filter visible (tag_atoms vis (mol_atoms m))))
                                          (bond_to b)) (mol_bonds m)\<rparr>)"
  by (simp add: setMolecule_def Let_def)

lemma loaded_elements:
  "(e \<in> element ` set (filter visible (tag_atoms vis as)))
   = (e \<in> element ` set as \<and> vis e \<noteq> Some False)"
proof -
  have "set (map element (filter visible (tag_atoms vis as)))
        = {e \<in> element ` set as. vis e \<noteq> Some False}"
    by (simp only: tag_atoms_elements) auto
  then show ?thesis by simp
qed


lemma setMolecule_returns:
  assumes "\<forall>a\<in>set (mol_atoms m). vis (element a) \<noteq> Some False
                                  \<longrightarrow> element a \<notin> set object_prototype_members"
  shows "setMolecule (Val m) (Val vis) s
         = Returns (state_of (setMolecule (Val m) (Val vis) s))"
proof -
  let ?as = "filter visible (tag_atoms vis (mol_atoms m))"
  have al: "\<forall>a'\<in>set ?as. element a' \<notin> set object_prototype_members"
  proof
    fix a' assume "a' \<in> set ?as"
    then have "element a' \<in> element ` set ?as" by (rule imageI)
    then have "element a' \<in> element ` set (mol_atoms m) \<and> vis (element a') \<noteq> Some False"
      using loaded_elements [of "element a'" vis "mol_atoms m"] by blast
    then have "element a' \<in> element ` set (mol_atoms m)" and v: "vis (element a') \<noteq> Some False"
      by simp_all
    then obtain a where a: "a \<in> set (mol_atoms m)" and e: "element a' = element a"
      by (auto simp only: image_iff)
    from v have "vis (element a) \<noteq> Some False" using e by simp
    with assms a have "element a \<notin> set object_prototype_members" by blast
    then show "element a' \<notin> set object_prototype_members" using e by simp
  qed
  show ?thesis
    unfolding setMolecule_render by (rule render_returns) (use al in simp)
qed



section \<open>The projection\<close>

lemma project3D_finite:
  assumes "rotation s = Rotation rx ry" and "5 + spec_z2 rx ry x y z \<noteq> 0"
  shows "project3D s x y z = spec_project (width s) (height s) rx ry (zoom s) x y z"
  using assms
  by (simp add: project3D_def spec_project_def spec_x1_def spec_y1_def spec_z1_def
      spec_z2_def spec_scaleFactor_def js_sub_def Let_def)

lemma project3D_depth:
  "rotation s = Rotation rx ry \<Longrightarrow> pz (project3D s x y z) = Num (spec_z2 rx ry x y z)"
  by (simp add: project3D_def spec_z1_def spec_z2_def js_sub_def Let_def)

lemma not_finite_add_inf: "\<not> is_finite (js_add (Num a) (signed_inf b))"
  by (simp add: signed_inf_def)

lemma not_finite_sub_inf: "\<not> is_finite (js_sub (Num a) (signed_inf b))"
  by (simp add: signed_inf_def js_sub_def)

text \<open>
  Claim C4. With numbers for the two rotation angles and away from the singularity,
  \<^verbatim>\<open>project3D\<close> returns what the formulas of the specification give: the rotation about
  the vertical axis, then about the horizontal axis, the scale factor \<open>5 / (5 + z2)\<close>,
  the screen coordinates around the centre of the surface, and \<open>z2\<close> as the depth. With
  rotation \<open>(0, 0)\<close> and zoom 1 the origin is projected to the centre of the surface.
\<close>

theorem project3D_formula:
  assumes "rotation s = Rotation rx ry"
  shows "(5 + spec_z2 rx ry x y z \<noteq> 0 \<longrightarrow>
            project3D s x y z = spec_project (width s) (height s) rx ry (zoom s) x y z)
       \<and> (rx = 0 \<and> ry = 0 \<and> zoom s = 1 \<longrightarrow>
            project3D s 0 0 0
            = \<lparr>px = Num (width s / 2), py = Num (height s / 2), pz = Num 0\<rparr>)"
proof -
  have "project3D s 0 0 0 = \<lparr>px = Num (width s / 2), py = Num (height s / 2), pz = Num 0\<rparr>"
    if "rx = 0" "ry = 0" "zoom s = 1"
    using assms that by (simp add: project3D_def js_sub_def)
  then show ?thesis using assms by (simp add: project3D_finite)
qed

theorem project3D_formula_witness:
  "rotation front_viewer = Rotation 0 0 \<and> 5 + spec_z2 0 0 1 2 3 \<noteq> 0 \<and> zoom front_viewer = 1
   \<and> project3D front_viewer 1 2 3 = \<lparr>px = Num 212.5, py = Num (- 50), pz = Num 3\<rparr>
   \<and> project3D front_viewer 0 0 0 = \<lparr>px = Num 150, py = Num 75, pz = Num 0\<rparr>"
  using project3D_formula [OF rotation_front_viewer, of 1 2 3]
  by (simp add: rotation_front_viewer zoom_front_viewer size_front_viewer spec_project_def
      spec_x1_def spec_y1_def spec_z1_def spec_z2_def spec_scaleFactor_def)

text \<open>
  Claim C9. \<^verbatim>\<open>project3D\<close> has no error outcome: it returns a point for every input. At
  the singularity \<open>z2 = - 5\<close> the divisor is zero and nothing guards it: the scale
  factor is the infinity of the division, so both screen coordinates come out as an
  infinity or NaN, never as a clamped number, while the depth is \<open>- 5\<close>.
\<close>

theorem project3D_singularity:
  assumes "rotation s = Rotation rx ry" and "5 + spec_z2 rx ry x y z = 0"
  shows "px (project3D s x y z)
           = js_add (Num (width s / 2)) (signed_inf (spec_x1 ry x z * (100 * zoom s)))
       \<and> py (project3D s x y z)
           = js_sub (Num (height s / 2)) (signed_inf (spec_y1 rx ry x y z * (100 * zoom s)))
       \<and> pz (project3D s x y z) = Num (- 5)
       \<and> \<not> is_finite (px (project3D s x y z)) \<and> \<not> is_finite (py (project3D s x y z))"
proof -
  have Z: "pz (project3D s x y z) = Num (- 5)"
    using assms(2) project3D_depth [OF assms(1), of x y z] by simp
  have sf: "js_div (Num 5) (js_add (Num 5) (Num (spec_z2 rx ry x y z))) = PosInf"
    using assms(2) by (simp add: signed_inf_def)
  have X: "px (project3D s x y z)
           = js_add (Num (width s / 2)) (signed_inf (spec_x1 ry x z * (100 * zoom s)))"
    using assms(1) sf
    by (simp add: project3D_def Let_def js_sub_def spec_z2_def spec_z1_def spec_x1_def)
  have Y: "py (project3D s x y z)
           = js_sub (Num (height s / 2)) (signed_inf (spec_y1 rx ry x y z * (100 * zoom s)))"
    using assms(1) sf
    by (simp add: project3D_def Let_def js_sub_def spec_z2_def spec_z1_def spec_y1_def)
  show ?thesis using X Y Z by (simp add: not_finite_add_inf not_finite_sub_inf)
qed

theorem project3D_singularity_witness:
  "rotation front_viewer = Rotation 0 0 \<and> 5 + spec_z2 0 0 1 0 (- 5) = 0
   \<and> px (project3D front_viewer 1 0 (- 5)) = PosInf
   \<and> py (project3D front_viewer 1 0 (- 5)) = NaN
   \<and> pz (project3D front_viewer 1 0 (- 5)) = Num (- 5)"
proof -
  have h: "5 + spec_z2 0 0 1 0 (- 5) = 0"
    by (simp add: spec_z2_def spec_z1_def)
  show ?thesis
    using project3D_singularity [OF rotation_front_viewer h] h
    by (simp add: rotation_front_viewer zoom_front_viewer size_front_viewer spec_x1_def
        spec_y1_def spec_z1_def signed_inf_def js_sub_def)
qed

section \<open>Zoom\<close>

lemma zoom_render: "zoom (state_of (render s)) = zoom s"
  by (simp add: state_of_render)

lemma zoom_step_ok: "zoom_ok s \<Longrightarrow> zoom_ok (zoom_step s op)"
  by (cases op) (auto simp: zoom_ok_def wheel_def zoomIn_def zoomOut_def state_of_render Let_def)

lemma zoom_steps_ok: "zoom_ok s \<Longrightarrow> zoom_ok (foldl zoom_step s ops)"
  by (induction ops arbitrary: s) (simp_all add: zoom_step_ok)

text \<open>
  Claim C2. From a viewer whose zoom is within \<open>[0.1, 5]\<close>, any finite sequence of
  wheel events, \<^verbatim>\<open>zoomIn\<close> and \<^verbatim>\<open>zoomOut\<close> calls leaves the stored zoom within
  \<open>[0.1, 5]\<close>: each of the three clamps the value it stores, before it renders, and
  \<^verbatim>\<open>render\<close> stores no zoom at all.
\<close>

theorem zoom_stays_clamped:
  assumes "0.1 \<le> zoom s" and "zoom s \<le> 5"
  shows "0.1 \<le> zoom (foldl zoom_step s ops) \<and> zoom (foldl zoom_step s ops) \<le> 5
         \<and> zoom (state_of (render (foldl zoom_step s ops))) = zoom (foldl zoom_step s ops)"
proof -
  from assms have "zoom_ok s" by (simp add: zoom_ok_def)
  then have "zoom_ok (foldl zoom_step s ops)" by (rule zoom_steps_ok)
  then show ?thesis by (simp add: zoom_ok_def zoom_render)
qed

theorem zoom_stays_clamped_witness:
  "0.1 \<le> zoom front_viewer \<and> zoom front_viewer \<le> 5
   \<and> 0.1 \<le> zoom (foldl zoom_step front_viewer [ZoomIn, Wheel \<lparr>deltaY = - 120\<rparr>, ZoomOut])
   \<and> zoom (foldl zoom_step front_viewer [ZoomIn, Wheel \<lparr>deltaY = - 120\<rparr>, ZoomOut]) \<le> 5"
proof -
  have lo: "0.1 \<le> zoom front_viewer" and hi: "zoom front_viewer \<le> 5"
    by (simp_all add: zoom_front_viewer)
  show ?thesis
    using zoom_stays_clamped [OF lo hi, of "[ZoomIn, Wheel \<lparr>deltaY = - 120\<rparr>, ZoomOut]"] lo hi
    by simp
qed


section \<open>Pointer handlers and spinning\<close>

lemma startSpin_new:
  "startSpin (new_Simple3DMolecule w h)
   = Returns ((new_Simple3DMolecule w h)
                \<lparr>rotation := Rotation 0.5 0.52, spinning := True, pending := 1,
                  surface := [ClearRect, Background]\<rparr>)"
  by (simp add: startSpin_def spin_def render_def frame_empty requestAnimationFrame_def
      new_Simple3DMolecule_def)

text \<open>
  Claim C5, as amended. A pointer-down does not stop the spinning: the \<^verbatim>\<open>mousedown\<close>
  handler starts the drag and records the pointer position, and leaves the spinning
  flag, the scheduled ticks and the camera as they were.
\<close>

theorem mousedown_keeps_spinning:
  "spinning (mousedown e s) = spinning s \<and> pending (mousedown e s) = pending s
   \<and> rotation (mousedown e s) = rotation s \<and> zoom (mousedown e s) = zoom s
   \<and> isDragging (mousedown e s)
   \<and> lastX (mousedown e s) = clientX e \<and> lastY (mousedown e s) = clientY e"
  by (simp add: mousedown_def)

text \<open>
  The claim as it was stated fails on a fresh viewer that was set spinning: after the
  pointer-down it is spinning and dragging at once.
\<close>

theorem mousedown_spinning_counterexample:
  "spinning (state_of (startSpin (new_Simple3DMolecule 300 150)))
   \<and> spinning (mousedown \<lparr>clientX = 10, clientY = 20\<rparr>
                 (state_of (startSpin (new_Simple3DMolecule 300 150))))
   \<and> isDragging (mousedown \<lparr>clientX = 10, clientY = 20\<rparr>
                   (state_of (startSpin (new_Simple3DMolecule 300 150))))"
  by (simp add: mousedown_def startSpin_new)

lemma spin_stopped: "\<not> spinning s \<Longrightarrow> spin s = Returns s"
  by (simp add: spin_def)

lemma ticks_after_stop:
  "\<not> spinning s \<Longrightarrow>
   ((\<lambda>s. state_of (animationFrame s)) ^^ n) s = s\<lparr>pending := pending s - n\<rparr>"
proof (induction n)
  case 0
  then show ?case by simp
next
  case (Suc n)
  then show ?case by (simp add: animationFrame_def spin_def)
qed

lemma ticks_after_stopSpin:
  "((\<lambda>s. state_of (animationFrame s)) ^^ n) (stopSpin s)
   = (stopSpin s)\<lparr>pending := pending s - n\<rparr>"
proof -
  have "((\<lambda>s. state_of (animationFrame s)) ^^ n) (stopSpin s)
        = (stopSpin s)\<lparr>pending := pending (stopSpin s) - n\<rparr>"
    by (rule ticks_after_stop) (simp add: stopSpin_def)
  then show ?thesis by (simp add: stopSpin_def)
qed

lemma tick_reschedules:
  assumes "spinning s" and "rotation s = Rotation a b" and "0 < pending s"
    and "\<forall>x\<in>set (atoms s). element x \<notin> set object_prototype_members"
  shows "animationFrame s = Returns (state_of (animationFrame s))
         \<and> rotation (state_of (animationFrame s)) = Rotation a (b + 0.02)
         \<and> pending (state_of (animationFrame s)) = pending s
         \<and> spinning (state_of (animationFrame s))"
proof -
  let ?u = "s\<lparr>pending := pending s - 1, rotation := Rotation a (b + 0.02)\<rparr>"
  have r: "render ?u = Returns (state_of (render ?u))"
    by (rule render_returns) (use assms(4) in simp)
  have "animationFrame s = (case render ?u of
                              Returns s' \<Rightarrow> Returns (requestAnimationFrame s')
                            | Throws e s' \<Rightarrow> Throws e s')"
    using assms(1-3) by (simp add: animationFrame_def spin_def)
  then have "animationFrame s = Returns (requestAnimationFrame (state_of (render ?u)))"
    by (subst (asm) r) simp
  then show ?thesis
    using assms(1,3) by (simp add: requestAnimationFrame_def state_of_render)
qed

lemma tick_throws:
  assumes "spinning s" and "0 < pending s"
    and "\<exists>x\<in>set (atoms s). element x \<in> set object_prototype_members"
  shows "animationFrame s = Throws TypeError (state_of (animationFrame s))
         \<and> rotation (state_of (animationFrame s)) = add_y (rotation s) 0.02
         \<and> pending (state_of (animationFrame s)) = pending s - 1
         \<and> spinning (state_of (animationFrame s))"
proof -
  let ?u = "s\<lparr>pending := pending s - 1, rotation := add_y (rotation s) 0.02\<rparr>"
  have r: "render ?u = Throws TypeError (state_of (render ?u))"
    by (rule render_throws) (use assms(3) in simp)
  have "animationFrame s = (case render ?u of
                              Returns s' \<Rightarrow> Returns (requestAnimationFrame s')
                            | Throws e s' \<Rightarrow> Throws e s')"
    using assms(1,2) by (simp add: animationFrame_def spin_def)
  then have "animationFrame s = Throws TypeError (state_of (render ?u))"
    by (subst (asm) r) simp
  then show ?thesis
    using assms(1) by (simp add: state_of_render)
qed

lemma stuck_spinner_fields:
  "spinning stuck_spinner" "pending stuck_spinner = 1"
  "rotation stuck_spinner = Rotation 0.5 0.52"
  "map element (atoms stuck_spinner) = [''constructor'']"
  by (simp_all add: stuck_spinner_def setMolecule_default_mask setMolecule_state Let_def
      startSpin_new clear_def tag_atoms_elements oddly_named_def)

text \<open>
  Claim C8 fails on the code. A tick that fires while the viewer is spinning adds 0.02
  to \<^verbatim>\<open>rotation.y\<close>, and after \<^verbatim>\<open>stopSpin\<close> every tick that fires does nothing and is
  not scheduled again (lemma \<open>ticks_after_stopSpin\<close>). But the tick renders before it
  schedules itself again, so it is rescheduled only if \<^verbatim>\<open>render\<close> returns (lemma
  \<open>tick_reschedules\<close>): in a viewer that was set spinning and then given a molecule with
  an atom named like a member of \<^verbatim>\<open>Object.prototype\<close>, the tick throws, nothing is
  scheduled any more, and the viewer still counts as spinning.
\<close>

theorem spin_tick_not_rescheduled:
  "spinning stuck_spinner \<and> pending stuck_spinner = 1
   \<and> rotation stuck_spinner = Rotation 0.5 0.52
   \<and> animationFrame stuck_spinner = Throws TypeError (state_of (animationFrame stuck_spinner))
   \<and> rotation (state_of (animationFrame stuck_spinner)) = Rotation 0.5 0.54
   \<and> spinning (state_of (animationFrame stuck_spinner))
   \<and> pending (state_of (animationFrame stuck_spinner)) = 0"
proof -
  have "set (map element (atoms stuck_spinner)) = {''constructor''}"
    by (simp only: stuck_spinner_fields(4)) simp
  then have "''constructor'' \<in> element ` set (atoms stuck_spinner)"
    by simp
  then obtain x where x: "x \<in> set (atoms stuck_spinner)" and e: "element x = ''constructor''"
    by (auto simp only: image_iff)
  have "element x \<in> set object_prototype_members"
    by (simp add: e object_prototype_members_def)
  with x have ex: "\<exists>x\<in>set (atoms stuck_spinner). element x \<in> set object_prototype_members"
    by (intro bexI [of _ x])
  have p: "0 < pending stuck_spinner"
    by (simp add: stuck_spinner_fields)
  show ?thesis
    using tick_throws [OF stuck_spinner_fields(1) p ex]
    by (simp add: stuck_spinner_fields)
qed


section \<open>Named views\<close>

lemma setView_named:
  "setView ''front'' s = render (s\<lparr>rotation := Rotation 0 0\<rparr>)"
  "setView ''top'' s = render (s\<lparr>rotation := Rotation (pi / 2) 0\<rparr>)"
  "setView ''side'' s = render (s\<lparr>rotation := Rotation 0 (pi / 2)\<rparr>)"
  "setView ''iso'' s = render (s\<lparr>rotation := Rotation 0.5 0.5\<rparr>)"
  by (simp_all add: setView_def get_property_def views_def)

lemma rotation_render: "rotation (state_of (render s)) = rotation s"
  by (simp add: state_of_render)

lemma setView_unknown:
  assumes "view \<notin> set [''front'', ''top'', ''side'', ''iso'']"
    and "view \<notin> set object_prototype_members"
  shows "setView view s = Returns s"
  using assms by (simp add: setView_def get_property_def views_def)

text \<open>
  Claim C7 fails on the code. The four names are mapped as stated, and a name that no
  object has as a property is a no-op; but a name that every object inherits, such as
  \<^verbatim>\<open>constructor\<close>, passes the test \<^verbatim>\<open>if (views[view])\<close>, and the inherited member is
  stored as the rotation: the camera is changed.
\<close>

theorem setView_inherited_name:
  "rotation (new_Simple3DMolecule 300 150) = Rotation 0.5 0.5
   \<and> setView ''constructor'' (new_Simple3DMolecule 300 150)
       = Returns ((new_Simple3DMolecule 300 150)
                    \<lparr>rotation := ProtoMember ''constructor'',
                      surface := [ClearRect, Background]\<rparr>)
   \<and> rotation (state_of (setView ''constructor'' (new_Simple3DMolecule 300 150)))
       = ProtoMember ''constructor''
   \<and> rot_x (rotation (state_of (setView ''constructor'' (new_Simple3DMolecule 300 150)))) = NaN"
  by (simp add: setView_def get_property_def views_def object_prototype_members_def render_def
      frame_empty new_Simple3DMolecule_def)


section \<open>The frame that \<^verbatim>\<open>render\<close> paints\<close>

lemma insort_cmp_key:
  assumes "\<And>b. b \<in> set xs \<Longrightarrow> js_gt0 (cmp x b) = (k b < k x)"
  shows "insort_cmp cmp x xs = insort_key k x xs"
  using assms by (induction xs) (auto simp: not_less)

lemma sort_cmp_key:
  assumes "\<And>a b. a \<in> set xs \<Longrightarrow> b \<in> set xs \<Longrightarrow> js_gt0 (cmp a b) = (k b < k a)"
  shows "sort_cmp cmp xs = sort_key k xs"
  using assms
proof (induction xs)
  case Nil
  then show ?case by (simp add: sort_cmp_def)
next
  case (Cons x xs)
  have IH: "sort_cmp cmp xs = sort_key k xs" using Cons by simp
  have "sort_cmp cmp (x # xs) = insort_cmp cmp x (sort_key k xs)"
    using IH by (simp add: sort_cmp_def)
  also have "\<dots> = insort_key k x (sort_key k xs)"
    by (rule insort_cmp_key) (simp add: Cons.prems)
  finally show ?case by simp
qed

lemma sort_cmp_props:
  fixes k :: "'a \<Rightarrow> real"
  assumes "\<And>a b. a \<in> set xs \<Longrightarrow> b \<in> set xs \<Longrightarrow> js_gt0 (cmp a b) = (k b < k a)"
  shows "mset (sort_cmp cmp xs) = mset xs"
    and "sorted_wrt (\<lambda>a b. \<not> js_gt0 (cmp a b)) (sort_cmp cmp xs)"
    and "filter (\<lambda>a. k a = r) (sort_cmp cmp xs) = filter (\<lambda>a. k a = r) xs"
proof -
  have eq: "sort_cmp cmp xs = sort_key k xs" using assms by (rule sort_cmp_key)
  show "mset (sort_cmp cmp xs) = mset xs" by (simp add: eq)
  show "filter (\<lambda>a. k a = r) (sort_cmp cmp xs) = filter (\<lambda>a. k a = r) xs"
    by (simp add: eq sort_key_stable)
  have "sorted (map k (sort_key k xs))" by simp
  then have "sorted_wrt (\<lambda>a b. k a \<le> k b) (sort_key k xs)" by (simp add: sorted_map)
  then have "sorted_wrt (\<lambda>a b. \<not> js_gt0 (cmp a b)) (sort_key k xs)"
    by (rule sorted_wrt_mono_rel[rotated]) (simp add: assms not_less)
  then show "sorted_wrt (\<lambda>a b. \<not> js_gt0 (cmp a b)) (sort_cmp cmp xs)" by (simp add: eq)
qed

lemma depth_projectAtoms:
  assumes "a \<in> set (projectAtoms s)"
  shows "pz (pos a) = (case rotation s of
                         Rotation rx ry \<Rightarrow> Num (spec_z2 rx ry (ax a) (ay a) (az a))
                       | ProtoMember k \<Rightarrow> NaN)"
  using assms
  by (cases "rotation s")
     (auto simp: projectAtoms_def project3D_def Let_def js_sub_def spec_z2_def spec_z1_def)

lemma originalIndex_projectAtoms: "map originalIndex (projectAtoms s) = map originalIndex (atoms s)"
  by (simp add: projectAtoms_def comp_def)

lemma draw_bond_found:
  assumes "has (map originalIndex ps) (bond_from b)" and "has (map originalIndex ps) (bond_to b)"
  shows "\<exists>c. draw_bond ps b = [c] \<and> bond_line ps c b"
proof -
  from assms(1) obtain f where f: "find (\<lambda>a. int (originalIndex a) = bond_from b) ps = Some f"
    by (cases "find (\<lambda>a. int (originalIndex a) = bond_from b) ps") (auto simp: find_None_iff has_iff)
  from assms(2) obtain t where t: "find (\<lambda>a. int (originalIndex a) = bond_to b) ps = Some t"
    by (cases "find (\<lambda>a. int (originalIndex a) = bond_to b) ps") (auto simp: find_None_iff has_iff)
  from f have f': "f \<in> set ps" "int (originalIndex f) = bond_from b"
    by (auto simp: find_Some_iff)
  from t have t': "t \<in> set ps" "int (originalIndex t) = bond_to b"
    by (auto simp: find_Some_iff)
  have "draw_bond ps b = [DrawBond b (pos f) (pos t) (bond_order b * 2)]"
    by (simp add: draw_bond_def f t)
  moreover have "bond_line ps (DrawBond b (pos f) (pos t) (bond_order b * 2)) b"
    unfolding bond_line_def using f' t' by blast
  ultimately show ?thesis by blast
qed

lemma draw_bonds_all:
  assumes "list_all (\<lambda>b. has (map originalIndex ps) (bond_from b) \<and> has (map originalIndex ps) (bond_to b)) bs"
  shows "list_all2 (bond_line ps) (concat (map (draw_bond ps) bs)) bs"
  using assms
proof (induction bs)
  case Nil
  then show ?case by simp
next
  case (Cons b bs)
  then obtain c where "draw_bond ps b = [c]" "bond_line ps c b"
    using draw_bond_found[of ps b] by auto
  with Cons show ?case by simp
qed

lemma filter_sort_key_same:
  fixes k :: "'a \<Rightarrow> real"
  assumes "\<And>a b. a \<in> set xs \<Longrightarrow> b \<in> set xs \<Longrightarrow> P a \<Longrightarrow> P b \<Longrightarrow> k a = k b"
  shows "filter P (sort_key k xs) = filter P xs"
proof -
  have "sorted_wrt (\<lambda>a b. k a \<le> k b) (filter P xs)"
  proof (rule sorted_wrt_mono_rel[of "filter P xs" "\<lambda>a b. True"])
    fix a b assume "a \<in> set (filter P xs)" "b \<in> set (filter P xs)"
    then have "k a = k b" using assms by simp
    then show "k a \<le> k b" by simp
  qed simp
  then have "sorted (map k (filter P xs))" by (simp add: sorted_map)
  then have "sort_key k (filter P xs) = filter P xs" by (rule sort_key_id_if_sorted)
  then show ?thesis by (simp add: filter_sort)
qed

lemma depth_key:
  "\<exists>k::projected_atom \<Rightarrow> real.
     \<forall>a\<in>set (projectAtoms s). \<forall>b\<in>set (projectAtoms s).
       js_gt0 (compare_z a b) = (k b < k a) \<and> (pz (pos a) = pz (pos b) \<longrightarrow> k a = k b)"
proof (cases "rotation s")
  case (Rotation rx ry)
  let ?k = "\<lambda>a::projected_atom. spec_z2 rx ry (ax a) (ay a) (az a)"
  have d: "pz (pos a) = Num (?k a)" if "a \<in> set (projectAtoms s)" for a
    using depth_projectAtoms[OF that] Rotation by simp
  have R: "js_gt0 (compare_z a b) = (?k b < ?k a) \<and> (pz (pos a) = pz (pos b) \<longrightarrow> ?k a = ?k b)"
    if "a \<in> set (projectAtoms s)" "b \<in> set (projectAtoms s)" for a b
    using d[OF that(1)] d[OF that(2)] by (simp add: compare_z_def js_sub_def)
  show ?thesis by (rule exI[of _ ?k]) (use R in blast)
next
  case (ProtoMember m)
  have d: "pz (pos a) = NaN" if "a \<in> set (projectAtoms s)" for a
    using depth_projectAtoms[OF that] ProtoMember by simp
  have R: "js_gt0 (compare_z a b) = ((0::real) < 0)"
    if "a \<in> set (projectAtoms s)" "b \<in> set (projectAtoms s)" for a b
    using d[OF that(1)] d[OF that(2)] by (simp add: compare_z_def js_sub_def)
  show ?thesis by (rule exI[of _ "\<lambda>a. 0"]) (use R in blast)
qed

lemma truncate_projectAtoms: "map scene_atom.truncate (projectAtoms s) = atoms s"
proof -
  have "scene_atom.truncate
          \<lparr>element = element a, ax = ax a, ay = ay a, az = az a,
           originalIndex = originalIndex a, visible = visible a,
           pos = project3D s (ax a) (ay a) (az a)\<rparr> = a" for a :: scene_atom
    by (cases a) (simp add: scene_atom.truncate_def)
  then show ?thesis
    by (simp add: projectAtoms_def comp_def)
qed

lemma pos_projectAtoms:
  "p \<in> set (projectAtoms s) \<Longrightarrow> pos p = project3D s (ax p) (ay p) (az p)"
  by (auto simp: projectAtoms_def)

lemma filter_projectAtoms:
  "map scene_atom.truncate (filter (\<lambda>p. pz (pos p) = d) (projectAtoms s))
   = filter (\<lambda>a. pz (project3D s (ax a) (ay a) (az a)) = d) (atoms s)"
proof -
  have "map scene_atom.truncate (filter (\<lambda>p. pz (pos p) = d) (projectAtoms s))
        = filter (\<lambda>a. pz (project3D s (ax a) (ay a) (az a)) = d)
            (map scene_atom.truncate (projectAtoms s))"
    by (simp add: projectAtoms_def filter_map comp_def scene_atom.truncate_def)
  then show ?thesis by (simp only: truncate_projectAtoms)
qed

lemma draw_atoms_shape:
  "\<exists>as tl. state_of (draw_atoms s ps) = concat as @ tl
     \<and> list_all2 (atom_paint s) (take (length as) ps) as
     \<and> (length as = length ps \<and> tl = []
          \<and> draw_atoms s ps = Returns (state_of (draw_atoms s ps))
        \<or> length as < length ps
          \<and> tl = [Shadow (ps ! length as) (atom_radius s (ps ! length as))]
          \<and> element (ps ! length as) \<in> set object_prototype_members
          \<and> draw_atoms s ps = Throws TypeError (state_of (draw_atoms s ps)))"
proof (induction ps)
  case Nil
  show ?case by (intro exI [of _ "[]"]) simp
next
  case (Cons p ps)
  show ?case
  proof (cases "element p \<in> set object_prototype_members")
    case True
    show ?thesis
      by (intro exI [of _ "[]"] exI [of _ "[Shadow p (atom_radius s p)]"])
         (simp add: draw_atom_throws True)
  next
    case False
    then obtain cs where cs: "draw_atom s p = Returns cs" and paint: "atom_paint s p cs"
      using draw_atom_returns [of p s] by blast
    from Cons.IH obtain as tl where
      st: "state_of (draw_atoms s ps) = concat as @ tl"
      and al: "list_all2 (atom_paint s) (take (length as) ps) as"
      and out: "length as = length ps \<and> tl = []
                  \<and> draw_atoms s ps = Returns (state_of (draw_atoms s ps))
                \<or> length as < length ps
                  \<and> tl = [Shadow (ps ! length as) (atom_radius s (ps ! length as))]
                  \<and> element (ps ! length as) \<in> set object_prototype_members
                  \<and> draw_atoms s ps = Throws TypeError (state_of (draw_atoms s ps))"
      by blast
    have st': "state_of (draw_atoms s (p # ps)) = concat (cs # as) @ tl"
      by (simp add: cs state_of_map_result st)
    have al': "list_all2 (atom_paint s) (take (length (cs # as)) (p # ps)) (cs # as)"
      using al paint by simp
    have out': "length (cs # as) = length (p # ps) \<and> tl = []
                  \<and> draw_atoms s (p # ps) = Returns (state_of (draw_atoms s (p # ps)))
                \<or> length (cs # as) < length (p # ps)
                  \<and> tl = [Shadow ((p # ps) ! length (cs # as))
                             (atom_radius s ((p # ps) ! length (cs # as)))]
                  \<and> element ((p # ps) ! length (cs # as)) \<in> set object_prototype_members
                  \<and> draw_atoms s (p # ps)
                      = Throws TypeError (state_of (draw_atoms s (p # ps)))"
      using out by (simp add: cs returns_map_result throws_map_result)
    from st' al' out' show ?thesis by blast
  qed
qed

text \<open>
  Claim C6. What \<^verbatim>\<open>render\<close> paints of a scene whose bonds join atoms of the scene (as
  every scene the class builds does): after the clear and the background come the
  bonds, one line per bond in the order of the scene and never reordered by depth, and
  only then atoms. The atoms are painted in the order \<open>ps\<close>: the atoms of the scene,
  each with its projected position, ordered so that no atom comes after one of strictly
  greater depth, atoms of equal depth keeping the order they have in the scene. Each is
  painted completely; the painting stops only if \<^verbatim>\<open>render\<close> throws, at an atom whose
  element is named like a member of \<^verbatim>\<open>Object.prototype\<close>, after the shadow of that atom.
\<close>

theorem render_order:
  assumes "scene_ok s"
  shows "\<exists>bs ps as tl.
     surface (state_of (render s)) = [ClearRect, Background] @ bs @ concat as @ tl
   \<and> list_all2 (bond_line ps) bs (bonds s)
   \<and> list_all2 (atom_paint s) (take (length as) ps) as
   \<and> (length as = length ps \<and> tl = [] \<and> render s = Returns (state_of (render s))
      \<or> length as < length ps
        \<and> tl = [Shadow (ps ! length as) (atom_radius s (ps ! length as))]
        \<and> element (ps ! length as) \<in> set object_prototype_members
        \<and> render s = Throws TypeError (state_of (render s)))
   \<and> mset (map scene_atom.truncate ps) = mset (atoms s)
   \<and> (\<forall>p\<in>set ps. pos p = project3D s (ax p) (ay p) (az p))
   \<and> sorted_wrt (\<lambda>p q. \<not> js_less (pz (pos q)) (pz (pos p))) ps
   \<and> (\<forall>d. map scene_atom.truncate (filter (\<lambda>p. pz (pos p) = d) ps)
           = filter (\<lambda>a. pz (project3D s (ax a) (ay a) (az a)) = d) (atoms s))"
proof -
  define ps where "ps = sort_cmp compare_z (projectAtoms s)"
  define bs where "bs = concat (map (draw_bond ps) (bonds s))"
  obtain as tl where
    st: "state_of (draw_atoms s ps) = concat as @ tl"
    and al: "list_all2 (atom_paint s) (take (length as) ps) as"
    and out: "length as = length ps \<and> tl = []
                \<and> draw_atoms s ps = Returns (state_of (draw_atoms s ps))
              \<or> length as < length ps
                \<and> tl = [Shadow (ps ! length as) (atom_radius s (ps ! length as))]
                \<and> element (ps ! length as) \<in> set object_prototype_members
                \<and> draw_atoms s ps = Throws TypeError (state_of (draw_atoms s ps))"
    using draw_atoms_shape [of s ps] by blast
  have fr: "surface (state_of (render s)) = [ClearRect, Background] @ bs @ concat as @ tl"
    by (simp add: state_of_render frame_def Let_def state_of_map_result st
        flip: ps_def bs_def)
  have ret: "(render s = Returns (state_of (render s)))
             = (draw_atoms s ps = Returns (state_of (draw_atoms s ps)))"
    by (simp add: render_def frame_def Let_def returns_map_result flip: ps_def)
  have thr: "(render s = Throws TypeError (state_of (render s)))
             = (draw_atoms s ps = Throws TypeError (state_of (draw_atoms s ps)))"
    by (simp add: render_def frame_def Let_def throws_map_result flip: ps_def)
  have out': "length as = length ps \<and> tl = [] \<and> render s = Returns (state_of (render s))
              \<or> length as < length ps
                \<and> tl = [Shadow (ps ! length as) (atom_radius s (ps ! length as))]
                \<and> element (ps ! length as) \<in> set object_prototype_members
                \<and> render s = Throws TypeError (state_of (render s))"
    using out by (simp only: ret thr)
  obtain k :: "projected_atom \<Rightarrow> real" where
    k: "\<forall>a\<in>set (projectAtoms s). \<forall>b\<in>set (projectAtoms s).
          js_gt0 (compare_z a b) = (k b < k a) \<and> (pz (pos a) = pz (pos b) \<longrightarrow> k a = k b)"
    using depth_key[of s] by blast
  have k1: "js_gt0 (compare_z a b) = (k b < k a)"
    if "a \<in> set (projectAtoms s)" "b \<in> set (projectAtoms s)" for a b
    using k that by blast
  have k2: "k a = k b"
    if "a \<in> set (projectAtoms s)" "b \<in> set (projectAtoms s)" "pz (pos a) = pz (pos b)" for a b
    using k that by blast
  have eq: "ps = sort_key k (projectAtoms s)"
    unfolding ps_def using k1 by (rule sort_cmp_key)
  have perm: "mset ps = mset (projectAtoms s)" by (simp add: eq)
  have sets: "set ps = set (projectAtoms s)" using perm by (rule mset_eq_setD)
  have "mset (map scene_atom.truncate ps) = mset (map scene_atom.truncate (projectAtoms s))"
    using perm by simp
  then have perm': "mset (map scene_atom.truncate ps) = mset (atoms s)"
    by (simp only: truncate_projectAtoms)
  have posn: "\<forall>p\<in>set ps. pos p = project3D s (ax p) (ay p) (az p)"
    using sets pos_projectAtoms by blast
  have "sorted_wrt (\<lambda>a b. \<not> js_gt0 (compare_z a b)) ps"
    unfolding ps_def using k1 by (rule sort_cmp_props(2))
  then have srt: "sorted_wrt (\<lambda>p q. \<not> js_less (pz (pos q)) (pz (pos p))) ps"
    by (simp add: js_less_def compare_z_def)
  have "filter (\<lambda>p. pz (pos p) = d) ps = filter (\<lambda>p. pz (pos p) = d) (projectAtoms s)" for d
    unfolding eq by (rule filter_sort_key_same) (rule k2, simp_all)
  then have stable: "map scene_atom.truncate (filter (\<lambda>p. pz (pos p) = d) ps)
                     = filter (\<lambda>a. pz (project3D s (ax a) (ay a) (az a)) = d) (atoms s)" for d
    by (simp only: filter_projectAtoms)
  have "set (map originalIndex ps) = set (map originalIndex (projectAtoms s))"
    using sets by simp
  then have "set (map originalIndex ps) = set (map originalIndex (atoms s))"
    by (simp only: originalIndex_projectAtoms)
  then have "has (map originalIndex ps) i = has (map originalIndex (atoms s)) i" for i
    by (rule has_cong)
  with assms have "list_all (\<lambda>b. has (map originalIndex ps) (bond_from b)
                              \<and> has (map originalIndex ps) (bond_to b)) (bonds s)"
    by (simp add: scene_ok_def)
  then have lines: "list_all2 (bond_line ps) bs (bonds s)"
    unfolding bs_def by (rule draw_bonds_all)
  from fr lines al out' perm' posn srt stable show ?thesis by blast
qed

lemma layered_viewer_scene:
  "atoms layered_viewer =
     [\<lparr>element = ''C'', ax = 0, ay = 0, az = 1, originalIndex = 0, visible = True\<rparr>,
      \<lparr>element = ''O'', ax = 1.2, ay = 0, az = - 1, originalIndex = 1, visible = True\<rparr>,
      \<lparr>element = ''H'', ax = - 0.5, ay = 0.9, az = 1, originalIndex = 2, visible = True\<rparr>]"
  "bonds layered_viewer = mol_bonds layered"
  "rotation layered_viewer = Rotation 0 0"
  "zoom layered_viewer = 1"
  by (simp_all add: layered_viewer_def setMolecule_default_mask setMolecule_state Let_def
      clear_def tag_atoms_def get_property_def has_def layered_def enumerate_eq_zip upt_rec
      rotation_front_viewer zoom_front_viewer)

lemma layered_sorted:
  "map originalIndex (sort_cmp compare_z (projectAtoms layered_viewer)) = [1, 0, 2]"
  by (simp add: projectAtoms_def layered_viewer_scene project3D_def Let_def js_sub_def
      sort_cmp_def compare_z_def)

lemma layered_painted:
  "painted (surface (state_of (render layered_viewer))) = [1, 0, 2]"
  by (simp add: state_of_render frame_def Let_def state_of_map_result
      projectAtoms_def layered_viewer_scene project3D_def js_sub_def
      sort_cmp_def compare_z_def draw_bond_def layered_def draw_atom_def
      getElementColor_def getElementRadius_def get_property_def colors_def radii_def 
      lightenColor_def parseInt16_def hex_value_def toString16_def hex_digits.simps)

theorem render_order_witness:
  "scene_ok layered_viewer
   \<and> (\<exists>bs ps as tl.
     surface (state_of (render layered_viewer)) = [ClearRect, Background] @ bs @ concat as @ tl
   \<and> list_all2 (bond_line ps) bs (bonds layered_viewer)
   \<and> list_all2 (atom_paint layered_viewer) (take (length as) ps) as
   \<and> (length as = length ps \<and> tl = []
        \<and> render layered_viewer = Returns (state_of (render layered_viewer))
      \<or> length as < length ps
        \<and> tl = [Shadow (ps ! length as) (atom_radius layered_viewer (ps ! length as))]
        \<and> element (ps ! length as) \<in> set object_prototype_members
        \<and> render layered_viewer = Throws TypeError (state_of (render layered_viewer)))
   \<and> mset (map scene_atom.truncate ps) = mset (atoms layered_viewer)
   \<and> (\<forall>p\<in>set ps. pos p = project3D layered_viewer (ax p) (ay p) (az p))
   \<and> sorted_wrt (\<lambda>p q. \<not> js_less (pz (pos q)) (pz (pos p))) ps
   \<and> (\<forall>d. map scene_atom.truncate (filter (\<lambda>p. pz (pos p) = d) ps)
           = filter (\<lambda>a. pz (project3D layered_viewer (ax a) (ay a) (az a)) = d)
               (atoms layered_viewer)))
   \<and> painted (surface (state_of (render layered_viewer))) = [1, 0, 2]"
proof -
  have ok: "scene_ok layered_viewer"
    by (simp add: scene_ok_def layered_viewer_scene has_def layered_def)
  show ?thesis
    using render_order [OF ok] ok layered_painted by (simp only: simp_thms)
qed


section \<open>Invariants of every reachable viewer\<close>

lemma scene_render:
  "atoms (state_of (render s)) = atoms s" "bonds (state_of (render s)) = bonds s"
  by (simp_all add: state_of_render)

lemma scene_ok_cong: "atoms t = atoms s \<Longrightarrow> bonds t = bonds s \<Longrightarrow> scene_ok t = scene_ok s"
  by (simp add: scene_ok_def)

lemma state_of_spin:
  "state_of (spin s) =
     (if spinning s then
        (let u = s\<lparr>rotation := add_y (rotation s) 0.02\<rparr>;
             r = u\<lparr>surface := state_of (frame u)\<rparr>
         in if render u = Returns r then requestAnimationFrame r else r)
      else s)"
proof -
  let ?u = "s\<lparr>rotation := add_y (rotation s) 0.02\<rparr>"
  have u: "state_of (render ?u) = ?u\<lparr>surface := state_of (frame ?u)\<rparr>"
    by (rule state_of_render)
  show ?thesis
  proof (cases "render ?u")
    case (Returns x)
    with u show ?thesis by (simp add: spin_def Let_def)
  next
    case (Throws e x)
    with u show ?thesis by (simp add: spin_def Let_def)
  qed
qed

lemma scene_spin:
  "atoms (state_of (spin s)) = atoms s" "bonds (state_of (spin s)) = bonds s"
  by (simp_all add: state_of_spin requestAnimationFrame_def Let_def)

lemma scene_ok_exec: "scene_ok s \<Longrightarrow> scene_ok (exec s ev)"
proof (cases ev)
  case CallClear
  then show ?thesis by (simp add: scene_ok_clear)
next
  case (CallSetMolecule m v)
  then show ?thesis by (simp add: scene_ok_setMolecule)
qed (auto simp: scene_ok_def mousedown_def mousemove_def mouseup_def wheel_def setView_def
      resetView_def zoomIn_def zoomOut_def startSpin_def stopSpin_def toggleSpin_def
      animationFrame_def scene_spin scene_render Let_def split: property.splits)

lemma scene_ok_reachable: "scene_ok (foldl exec (new_Simple3DMolecule w h) evs)"
proof -
  have "scene_ok s \<Longrightarrow> scene_ok (foldl exec s evs)" for s
    by (induction evs arbitrary: s) (simp_all add: scene_ok_exec)
  then show ?thesis by (simp add: scene_ok_new)
qed

lemma zoom_spin: "zoom (state_of (spin s)) = zoom s"
  by (simp add: state_of_spin requestAnimationFrame_def Let_def)

lemma zoom_setMolecule: "zoom (state_of (setMolecule m v s)) = zoom s"
  by (cases m; cases v)
     (simp_all add: setMolecule_def clear_def state_of_render Let_def)

lemma zoom_ok_exec: "zoom_ok s \<Longrightarrow> zoom_ok (exec s ev)"
  by (cases ev)
     (auto simp: zoom_ok_def clear_def zoom_setMolecule mousedown_def mousemove_def mouseup_def
       wheel_def setView_def resetView_def zoomIn_def zoomOut_def startSpin_def stopSpin_def
       toggleSpin_def animationFrame_def zoom_spin zoom_render Let_def split: property.splits)

lemma zoom_ok_reachable: "zoom_ok (foldl exec (new_Simple3DMolecule w h) evs)"
proof -
  have "zoom_ok s \<Longrightarrow> zoom_ok (foldl exec s evs)" for s
    by (induction evs arbitrary: s) (simp_all add: zoom_ok_exec)
  then show ?thesis by (simp add: zoom_ok_def new_Simple3DMolecule_def)
qed

end
